theory Spec2Isabelle
  imports Complex_Main "HOL-Library.AList"
begin

section \<open>Data model\<close>

text \<open>
  Values stored in the warehouse and carried by a divergence. Python floats and SQL
  NUMERIC values are modelled as exact reals; \<open>VDateStr d\<close> stands for \<open>str(d)\<close> of a
  date column.
\<close>

type_synonym date = nat \<comment> \<open>a calendar day written yyyymmdd, so that \<open>\<le>\<close> is the calendar order\<close>

datatype val = VNull | VNum real | VStr string | VInt int | VDateStr date

text \<open>One row of the view \<open>byd.bonus_view\<close>; every column may be NULL except the key.\<close>

record bonus_view_row =
  bv_idnfsexterno :: string
  bv_des_modelo :: "string option"
  bv_apontamento :: "string option"
  bv_competencia :: "string option"
  bv_bonus_utilizado :: "string option"
  bv_valor_bonus :: "real option"
  bv_trade :: "real option"
  bv_bonus_dpto :: "real option"
  bv_trade_mkt_dpto :: "real option"
  bv_dta_processamento :: "date option"
  bv_dias_pendente :: "int option" \<comment> \<open>\<open>EXTRACT(DAY FROM NOW() - dta_processamento)\<close>, computed by the database\<close>

text \<open>The dataclass \<open>Divergencia\<close>.\<close>

record Divergencia =
  idnfsexterno :: string
  tipo :: string
  campo_afetado :: string
  valor_atual :: val
  valor_esperado :: val
  competencia :: "string option"
  confianca :: real
  regras_violadas :: "string list"
  dados_adicionais :: "(string \<times> val) list"

section \<open>Divergence detection\<close>

text \<open>\<open>float(x) if x else 0.0\<close>: NULL and zero both give 0.0.\<close>

definition to_float :: "real option \<Rightarrow> real" where
  "to_float x = (case x of None \<Rightarrow> 0 | Some v \<Rightarrow> (if v = 0 then 0 else v))"

text \<open>\<open>COALESCE(CAST(x AS NUMERIC), 0)\<close>.\<close>

definition coalesce0 :: "real option \<Rightarrow> real" where
  "coalesce0 x = (case x of None \<Rightarrow> 0 | Some v \<Rightarrow> v)"

text \<open>\<open>d BETWEEN lo AND hi\<close>; a NULL date satisfies no comparison.\<close>

definition sql_between :: "date option \<Rightarrow> date \<Rightarrow> date \<Rightarrow> bool" where
  "sql_between d lo hi = (case d of None \<Rightarrow> False | Some x \<Rightarrow> lo \<le> x \<and> x \<le> hi)"

text \<open>
  The optional clause \<open>AND dta_processamento BETWEEN %s AND %s\<close>, appended only
  \<open>if data_inicio and data_fim\<close>.
\<close>

definition filtro_periodo :: "date option \<Rightarrow> date option \<Rightarrow> bonus_view_row \<Rightarrow> bool" where
  "filtro_periodo data_inicio data_fim r =
     (case data_inicio of
        None \<Rightarrow> True
      | Some a \<Rightarrow> (case data_fim of None \<Rightarrow> True
                   | Some b \<Rightarrow> sql_between (bv_dta_processamento r) a b))"

text \<open>The literal \<open>'Revisar Diverg\<^verbatim>\<open>e^\<close>ncia!'\<close> in UTF-8.\<close>

definition REVISAR_DIVERGENCIA :: string where
  "REVISAR_DIVERGENCIA = ''Revisar Diverg'' @ [CHR 0xC3, CHR 0xAA] @ ''ncia!''"

text \<open>\<open>ORDER BY dta_processamento DESC\<close>: NULLs sort as the largest value.\<close>

fun dta_ge :: "date option \<Rightarrow> date option \<Rightarrow> bool" where
  "dta_ge None _ = True"
| "dta_ge (Some a) None = False"
| "dta_ge (Some a) (Some b) = (b \<le> a)"

fun insert_desc :: "bonus_view_row \<Rightarrow> bonus_view_row list \<Rightarrow> bonus_view_row list" where
  "insert_desc r [] = [r]"
| "insert_desc r (x # xs) =
     (if dta_ge (bv_dta_processamento r) (bv_dta_processamento x) then r # x # xs
      else x # insert_desc r xs)"

definition order_by_dta_desc :: "bonus_view_row list \<Rightarrow> bonus_view_row list" where
  "order_by_dta_desc rows = foldr insert_desc rows []"

subsection \<open>Rule 1: trade marketing\<close>

definition trade_marketing_where :: "date option \<Rightarrow> date option \<Rightarrow> bonus_view_row \<Rightarrow> bool" where
  "trade_marketing_where data_inicio data_fim r =
     (bv_apontamento r = Some REVISAR_DIVERGENCIA \<and> filtro_periodo data_inicio data_fim r)"

definition dados_trade_marketing :: "bonus_view_row \<Rightarrow> (string \<times> val) list" where
  "dados_trade_marketing r =
     [(''des_modelo'', case bv_des_modelo r of None \<Rightarrow> VNull | Some s \<Rightarrow> VStr s),
      (''bonus_utilizado'', case bv_bonus_utilizado r of None \<Rightarrow> VNull | Some s \<Rightarrow> VStr s),
      (''dta_processamento'',
         case bv_dta_processamento r of None \<Rightarrow> VNull | Some d \<Rightarrow> VDateStr d)]"

text \<open>The body of the loop over the rows of rule 1.\<close>

definition trade_marketing_row :: "bonus_view_row \<Rightarrow> Divergencia list" where
  "trade_marketing_row r =
     (let valor_bonus = to_float (bv_valor_bonus r);
          trade = to_float (bv_trade r);
          bonus_dpto_atual = to_float (bv_bonus_dpto r);
          trade_mkt_dpto_atual = to_float (bv_trade_mkt_dpto r)
      in (if \<bar>bonus_dpto_atual - valor_bonus\<bar> > 0.01
          then [\<lparr>idnfsexterno = bv_idnfsexterno r, tipo = ''TRADE_MARKETING_BONUS'',
                 campo_afetado = ''bonus_dpto'', valor_atual = VNum bonus_dpto_atual,
                 valor_esperado = VNum valor_bonus, competencia = bv_competencia r,
                 confianca = 0.95, regras_violadas = [''BONUS_DPTO_DIVERGENTE''],
                 dados_adicionais = dados_trade_marketing r\<rparr>]
          else [])
         @
         (if \<bar>trade_mkt_dpto_atual - trade\<bar> > 0.01
          then [\<lparr>idnfsexterno = bv_idnfsexterno r, tipo = ''TRADE_MARKETING_TRADE'',
                 campo_afetado = ''trade_mkt_dpto'', valor_atual = VNum trade_mkt_dpto_atual,
                 valor_esperado = VNum trade, competencia = bv_competencia r,
                 confianca = 0.95, regras_violadas = [''TRADE_MKT_DPTO_DIVERGENTE''],
                 dados_adicionais = dados_trade_marketing r\<rparr>]
          else []))"

definition detectar_divergencias_trade_marketing ::
  "bonus_view_row list \<Rightarrow> date option \<Rightarrow> date option \<Rightarrow> Divergencia list" where
  "detectar_divergencias_trade_marketing bonus_view data_inicio data_fim =
     concat (map trade_marketing_row
       (order_by_dta_desc (filter (trade_marketing_where data_inicio data_fim) bonus_view)))"

subsection \<open>Rule 2: pending verification\<close>

text \<open>
  The WHERE clause of rule 2: the sentinel status inside the fixed window
  \<open>'2025-08-01'\<close> .. \<open>'2026-12-31'\<close>. The caller's period is not used by this query.
\<close>

definition pendentes_where :: "bonus_view_row \<Rightarrow> bool" where
  "pendentes_where r =
     (bv_bonus_utilizado r = Some ''PENDENTE VERIFICACAO''
      \<and> sql_between (bv_dta_processamento r) 20250801 20261231)"

definition pendente_row :: "bonus_view_row \<Rightarrow> Divergencia" where
  "pendente_row r =
     \<lparr>idnfsexterno = bv_idnfsexterno r, tipo = ''PENDENTE_VERIFICACAO'',
      campo_afetado = ''bonus_utilizado'', valor_atual = VStr ''PENDENTE VERIFICACAO'',
      valor_esperado = VNull, competencia = bv_competencia r,
      confianca = 0.5, regras_violadas = [''VERIFICACAO_PENDENTE_PROLONGADA''],
      dados_adicionais =
        [(''dias_pendente'', case bv_dias_pendente r of None \<Rightarrow> VNull | Some n \<Rightarrow> VInt n),
         (''dta_processamento'',
            case bv_dta_processamento r of None \<Rightarrow> VNull | Some d \<Rightarrow> VDateStr d)]\<rparr>"

definition detectar_pendentes_verificacao ::
  "bonus_view_row list \<Rightarrow> date option \<Rightarrow> date option \<Rightarrow> Divergencia list" where
  "detectar_pendentes_verificacao bonus_view data_inicio data_fim =
     map pendente_row (filter pendentes_where bonus_view)"

text \<open>The severity label that rule 2 logs from the number of pending rows.\<close>

definition nivel_criticidade :: "nat \<Rightarrow> string" where
  "nivel_criticidade total_pendentes =
     (if total_pendentes < 10 then ''BAIXA CRITICIDADE''
      else if total_pendentes \<le> 20 then ''ATENCAO - Volume moderado de pendentes''
      else ''CRITICO - Ajustar Chassis pendentes de verificacao!'')"

subsection \<open>Rule 3: value ranges\<close>

text \<open>The WHERE clause of rule 3, with its five disjuncts in the order of the query.\<close>

definition valores_where :: "bonus_view_row \<Rightarrow> bool" where
  "valores_where r =
     (coalesce0 (bv_trade r) < 0
      \<or> coalesce0 (bv_valor_bonus r) < 0
      \<or> coalesce0 (bv_bonus_dpto r) < 0
      \<or> coalesce0 (bv_trade r) > 100000
      \<or> coalesce0 (bv_valor_bonus r) > 100000)"

text \<open>The list \<open>regras_violadas\<close> that the loop of rule 3 builds for one row.\<close>

definition regras_valores :: "bonus_view_row \<Rightarrow> string list" where
  "regras_valores r =
     (let trade = to_float (bv_trade r); valor_bonus = to_float (bv_valor_bonus r)
      in (if trade < 0 then [''TRADE_VALOR_NEGATIVO''] else [])
       @ (if valor_bonus < 0 then [''BONUS_VALOR_NEGATIVO''] else [])
       @ (if trade > 100000 then [''TRADE_VALOR_OUTLIER''] else [])
       @ (if valor_bonus > 100000 then [''BONUS_VALOR_OUTLIER''] else []))"

text \<open>The body of the loop of rule 3: a row with no violated rule appends nothing.\<close>

definition valores_row :: "bonus_view_row \<Rightarrow> Divergencia list" where
  "valores_row r =
     (if regras_valores r \<noteq> []
      then [\<lparr>idnfsexterno = bv_idnfsexterno r, tipo = ''VALIDACAO_VALOR'',
             campo_afetado = ''valores_bonus'', valor_atual = VNull,
             valor_esperado = VNull, competencia = bv_competencia r,
             confianca = 0.7, regras_violadas = regras_valores r,
             dados_adicionais = [(''trade'', VNum (to_float (bv_trade r))),
                                 (''valor_bonus'', VNum (to_float (bv_valor_bonus r)))]\<rparr>]
      else [])"

definition detectar_divergencias_valores ::
  "bonus_view_row list \<Rightarrow> date option \<Rightarrow> date option \<Rightarrow> Divergencia list" where
  "detectar_divergencias_valores bonus_view data_inicio data_fim =
     concat (map valores_row
       (filter (\<lambda>r. valores_where r \<and> filtro_periodo data_inicio data_fim r) bonus_view))"

subsection \<open>The three scans and the confidence filter\<close>

definition detectar_divergencias ::
  "bonus_view_row list \<Rightarrow> date option \<Rightarrow> date option \<Rightarrow> real \<Rightarrow> Divergencia list" where
  "detectar_divergencias bonus_view data_inicio data_fim limite_confianca =
     filter (\<lambda>d. confianca d \<ge> limite_confianca)
       (detectar_divergencias_trade_marketing bonus_view data_inicio data_fim
        @ detectar_pendentes_verificacao bonus_view data_inicio data_fim
        @ detectar_divergencias_valores bonus_view data_inicio data_fim)"

text \<open>The default of the parameter \<open>limite_confianca\<close>.\<close>

definition LIMITE_CONFIANCA_PADRAO :: real where
  "LIMITE_CONFIANCA_PADRAO = 0.8"

section \<open>The connection\<close>

text \<open>
  The psycopg2 connection shared by the processor and the ledger: one transaction at a
  time. \<open>working\<close> is what the open transaction sees, \<open>committed\<close> what a rollback
  restores. Every statement and every commit is one round trip to the server; \<open>faults\<close>
  lists, in order, the outcome of the round trips still to come (\<open>Some m\<close>: the driver
  raises \<open>psycopg2.Error(m)\<close>; \<open>None\<close> or an exhausted list: it succeeds). A sequence
  value, once drawn, is not given back by a rollback. Timestamps and durations
  (\<open>NOW()\<close>) are not modelled.
\<close>

datatype error = Psycopg2Error string

fun str_error :: "error \<Rightarrow> string" where
  "str_error (Psycopg2Error m) = m"

type_synonym snapshot = "string \<times> string \<times> val" \<comment> \<open>the keys idnfsexterno, campo, valor\<close>

record operacao =
  op_id :: nat
  op_tipo_operacao :: string
  op_descricao :: string
  op_usuario :: string
  op_origem :: string
  op_tabela_afetada :: "string option"
  op_status :: string
  op_registros_afetados :: nat
  op_dados_anteriores :: "snapshot list option"
  op_dados_posteriores :: "snapshot list option"
  op_erro_mensagem :: "string option"

record divergencia_processada =
  dp_id :: nat
  dp_operacao_id :: nat
  dp_idnfsexterno :: string
  dp_tipo_divergencia :: string
  dp_valor_anterior :: val
  dp_valor_sugerido :: val
  dp_campo_afetado :: string
  dp_competencia :: "string option"
  dp_status_processamento :: string
  dp_confidence_score :: real
  dp_regras_aplicadas :: "string list"
  dp_dados_contextuais :: "(string \<times> val) list option"
  dp_valor_aplicado :: val
  dp_processado_por :: "string option"
  dp_motivo_rejeicao :: "string option"

record sessao_processamento =
  sp_id :: nat
  sp_tipo_sessao :: string
  sp_status :: string
  sp_parametros_execucao :: "(string \<times> val) list option"
  sp_ambiente :: string
  sp_total_registros_analisados :: nat
  sp_divergencias_detectadas :: nat
  sp_correcoes_aplicadas :: nat
  sp_correcoes_pendentes :: nat
  sp_erros_encontrados :: nat
  sp_resultado_geral :: "string option"
  sp_log_completo :: "string option"

text \<open>
  The tables the code writes. A row of \<open>byd.controladoria\<close> is its key and its columns.
\<close>

record database =
  controladoria :: "(string \<times> (string \<times> val) list) list"
  operacoes :: "operacao list"
  divergencias_processadas :: "divergencia_processada list"
  sessoes_processamento :: "sessao_processamento list"

datatype statement =
    InsertOperacao string
  | UpdateOperacao nat string
  | InsertDivergencia nat
  | UpdateDivergencia nat string
  | InsertSessao string
  | UpdateSessao nat string
  | SelectControladoria string string
  | UpdateControladoria string string
  | SelectBonusView

datatype event = Execute statement | Commit | Rollback

record connection =
  committed :: database
  working :: database
  faults :: "string option list"
  seq_operacoes :: nat
  seq_divergencias :: nat
  seq_sessoes :: nat
  trace :: "event list"

text \<open>One round trip: the event is recorded and the next outcome is consumed.\<close>

definition round_trip :: "event \<Rightarrow> connection \<Rightarrow> string option \<times> connection" where
  "round_trip ev c =
     (case faults c of
        [] \<Rightarrow> (None, c\<lparr>trace := trace c @ [ev]\<rparr>)
      | f # fs \<Rightarrow> (f, c\<lparr>faults := fs, trace := trace c @ [ev]\<rparr>))"

text \<open>\<open>cursor.execute\<close> of a statement that fails changes nothing.\<close>

definition cursor_execute :: "statement \<Rightarrow> connection \<Rightarrow> (error + unit) \<times> connection" where
  "cursor_execute st c =
     (case round_trip (Execute st) c of
        (Some m, c') \<Rightarrow> (Inl (Psycopg2Error m), c')
      | (None, c') \<Rightarrow> (Inr (), c'))"

text \<open>\<open>conn.rollback()\<close>: the open transaction is discarded.\<close>

definition conn_rollback :: "connection \<Rightarrow> connection" where
  "conn_rollback c = c\<lparr>working := committed c, trace := trace c @ [Rollback]\<rparr>"

text \<open>
  \<open>conn.commit()\<close>: everything written on this connection since the last commit becomes
  durable, whoever wrote it. A commit that fails loses the transaction.
\<close>

definition conn_commit :: "connection \<Rightarrow> (error + unit) \<times> connection" where
  "conn_commit c =
     (case round_trip Commit c of
        (Some m, c') \<Rightarrow> (Inl (Psycopg2Error m), c'\<lparr>working := committed c'\<rparr>)
      | (None, c') \<Rightarrow> (Inr (), c'\<lparr>committed := working c'\<rparr>))"

section \<open>The audit ledger (AuditLogger)\<close>

text \<open>
  Each method is \<open>try: execute; commit; return\<close> with
  \<open>except psycopg2.Error: rollback; raise\<close>. The optional arguments
  \<open>filtros_aplicados\<close>, \<open>query_executada\<close> and \<open>metadata\<close> of \<open>iniciar_operacao\<close>,
  which none of the callers below passes, are left out.
\<close>

definition iniciar_operacao ::
  "connection \<Rightarrow> string \<Rightarrow> string \<Rightarrow> string \<Rightarrow> string \<Rightarrow> string option
     \<Rightarrow> (error + nat) \<times> connection" where
  "iniciar_operacao c tipo_operacao descricao usuario origem tabela_afetada =
     (case cursor_execute (InsertOperacao tipo_operacao) c of
        (Inl e, c1) \<Rightarrow> (Inl e, conn_rollback c1)
      | (Inr _, c1) \<Rightarrow>
          (let operacao_id = Suc (seq_operacoes c1);
               linha = \<lparr>op_id = operacao_id, op_tipo_operacao = tipo_operacao,
                        op_descricao = descricao, op_usuario = usuario, op_origem = origem,
                        op_tabela_afetada = tabela_afetada, op_status = ''PENDING'',
                        op_registros_afetados = 0, op_dados_anteriores = None,
                        op_dados_posteriores = None, op_erro_mensagem = None\<rparr>;
               c2 = c1\<lparr>seq_operacoes := operacao_id,
                       working := (working c1)\<lparr>operacoes := operacoes (working c1) @ [linha]\<rparr>\<rparr>
           in (case conn_commit c2 of
                 (Inl e, c3) \<Rightarrow> (Inl e, conn_rollback c3)
               | (Inr _, c3) \<Rightarrow> (Inr operacao_id, c3))))"

text \<open>\<open>Json(x) if x else None\<close>.\<close>

definition json_or_null :: "'a list \<Rightarrow> 'a list option" where
  "json_or_null xs = (if xs = [] then None else Some xs)"

definition finalizar_operacao ::
  "connection \<Rightarrow> nat \<Rightarrow> string \<Rightarrow> nat \<Rightarrow> snapshot list \<Rightarrow> snapshot list \<Rightarrow> string option
     \<Rightarrow> (error + unit) \<times> connection" where
  "finalizar_operacao c operacao_id status registros_afetados dados_anteriores
       dados_posteriores erro_mensagem =
     (case cursor_execute (UpdateOperacao operacao_id status) c of
        (Inl e, c1) \<Rightarrow> (Inl e, conn_rollback c1)
      | (Inr _, c1) \<Rightarrow>
          (let c2 = c1\<lparr>working := (working c1)\<lparr>operacoes :=
                      map (\<lambda>r. if op_id r = operacao_id
                                then r\<lparr>op_status := status,
                                       op_registros_afetados := registros_afetados,
                                       op_dados_anteriores := json_or_null dados_anteriores,
                                       op_dados_posteriores := json_or_null dados_posteriores,
                                       op_erro_mensagem := erro_mensagem\<rparr>
                                else r)
                          (operacoes (working c1))\<rparr>\<rparr>
           in (case conn_commit c2 of
                 (Inl e, c3) \<Rightarrow> (Inl e, conn_rollback c3)
               | (Inr _, c3) \<Rightarrow> (Inr (), c3))))"

definition registrar_divergencia ::
  "connection \<Rightarrow> nat \<Rightarrow> string \<Rightarrow> string \<Rightarrow> val \<Rightarrow> val \<Rightarrow> string \<Rightarrow> string option \<Rightarrow> real
     \<Rightarrow> string list \<Rightarrow> (string \<times> val) list \<Rightarrow> (error + nat) \<times> connection" where
  "registrar_divergencia c operacao_id idnf tipo_divergencia valor_anterior valor_sugerido
       campo competencia_div confidence_score regras_aplicadas dados_contextuais =
     (case cursor_execute (InsertDivergencia operacao_id) c of
        (Inl e, c1) \<Rightarrow> (Inl e, conn_rollback c1)
      | (Inr _, c1) \<Rightarrow>
          (let divergencia_id = Suc (seq_divergencias c1);
               linha = \<lparr>dp_id = divergencia_id, dp_operacao_id = operacao_id,
                        dp_idnfsexterno = idnf, dp_tipo_divergencia = tipo_divergencia,
                        dp_valor_anterior = valor_anterior, dp_valor_sugerido = valor_sugerido,
                        dp_campo_afetado = campo, dp_competencia = competencia_div,
                        dp_status_processamento = ''DETECTED'',
                        dp_confidence_score = confidence_score,
                        dp_regras_aplicadas = regras_aplicadas,
                        dp_dados_contextuais = json_or_null dados_contextuais,
                        dp_valor_aplicado = VNull, dp_processado_por = None,
                        dp_motivo_rejeicao = None\<rparr>;
               c2 = c1\<lparr>seq_divergencias := divergencia_id,
                       working := (working c1)\<lparr>divergencias_processadas :=
                         divergencias_processadas (working c1) @ [linha]\<rparr>\<rparr>
           in (case conn_commit c2 of
                 (Inl e, c3) \<Rightarrow> (Inl e, conn_rollback c3)
               | (Inr _, c3) \<Rightarrow> (Inr divergencia_id, c3))))"

text \<open>
  The UPDATE has the single condition \<open>WHERE id = %s\<close>: the status the row has now is
  not read.
\<close>

definition atualizar_status_divergencia ::
  "connection \<Rightarrow> nat \<Rightarrow> string \<Rightarrow> val \<Rightarrow> string option \<Rightarrow> string option
     \<Rightarrow> (error + unit) \<times> connection" where
  "atualizar_status_divergencia c divergencia_id novo_status valor_aplicado processado_por
       motivo_rejeicao =
     (case cursor_execute (UpdateDivergencia divergencia_id novo_status) c of
        (Inl e, c1) \<Rightarrow> (Inl e, conn_rollback c1)
      | (Inr _, c1) \<Rightarrow>
          (let c2 = c1\<lparr>working := (working c1)\<lparr>divergencias_processadas :=
                      map (\<lambda>r. if dp_id r = divergencia_id
                                then r\<lparr>dp_status_processamento := novo_status,
                                       dp_valor_aplicado := valor_aplicado,
                                       dp_processado_por := processado_por,
                                       dp_motivo_rejeicao := motivo_rejeicao\<rparr>
                                else r)
                          (divergencias_processadas (working c1))\<rparr>\<rparr>
           in (case conn_commit c2 of
                 (Inl e, c3) \<Rightarrow> (Inl e, conn_rollback c3)
               | (Inr _, c3) \<Rightarrow> (Inr (), c3))))"

definition iniciar_sessao_processamento ::
  "connection \<Rightarrow> string \<Rightarrow> (string \<times> val) list \<Rightarrow> string \<Rightarrow> (error + nat) \<times> connection" where
  "iniciar_sessao_processamento c tipo_sessao parametros_execucao ambiente =
     (case cursor_execute (InsertSessao tipo_sessao) c of
        (Inl e, c1) \<Rightarrow> (Inl e, conn_rollback c1)
      | (Inr _, c1) \<Rightarrow>
          (let sessao_id = Suc (seq_sessoes c1);
               linha = \<lparr>sp_id = sessao_id, sp_tipo_sessao = tipo_sessao,
                        sp_status = ''RUNNING'',
                        sp_parametros_execucao = json_or_null parametros_execucao,
                        sp_ambiente = ambiente, sp_total_registros_analisados = 0,
                        sp_divergencias_detectadas = 0, sp_correcoes_aplicadas = 0,
                        sp_correcoes_pendentes = 0, sp_erros_encontrados = 0,
                        sp_resultado_geral = None, sp_log_completo = None\<rparr>;
               c2 = c1\<lparr>seq_sessoes := sessao_id,
                       working := (working c1)\<lparr>sessoes_processamento :=
                         sessoes_processamento (working c1) @ [linha]\<rparr>\<rparr>
           in (case conn_commit c2 of
                 (Inl e, c3) \<Rightarrow> (Inl e, conn_rollback c3)
               | (Inr _, c3) \<Rightarrow> (Inr sessao_id, c3))))"

text \<open>\<open>metricas.get(k, 0)\<close>.\<close>

definition metrica_get :: "(string \<times> nat) list \<Rightarrow> string \<Rightarrow> nat" where
  "metrica_get metricas k = (case map_of metricas k of None \<Rightarrow> 0 | Some v \<Rightarrow> v)"

definition finalizar_sessao_processamento ::
  "connection \<Rightarrow> nat \<Rightarrow> string \<Rightarrow> (string \<times> nat) list \<Rightarrow> string option \<Rightarrow> string option
     \<Rightarrow> (error + unit) \<times> connection" where
  "finalizar_sessao_processamento c sessao_id status metricas resultado_geral log_completo =
     (case cursor_execute (UpdateSessao sessao_id status) c of
        (Inl e, c1) \<Rightarrow> (Inl e, conn_rollback c1)
      | (Inr _, c1) \<Rightarrow>
          (let c2 = c1\<lparr>working := (working c1)\<lparr>sessoes_processamento :=
                      map (\<lambda>r. if sp_id r = sessao_id
                                then r\<lparr>sp_status := status,
                                       sp_total_registros_analisados :=
                                         metrica_get metricas ''total_registros_analisados'',
                                       sp_divergencias_detectadas :=
                                         metrica_get metricas ''divergencias_detectadas'',
                                       sp_correcoes_aplicadas :=
                                         metrica_get metricas ''correcoes_aplicadas'',
                                       sp_correcoes_pendentes :=
                                         metrica_get metricas ''correcoes_pendentes'',
                                       sp_erros_encontrados :=
                                         metrica_get metricas ''erros_encontrados'',
                                       sp_resultado_geral := resultado_geral,
                                       sp_log_completo := log_completo\<rparr>
                                else r)
                          (sessoes_processamento (working c1))\<rparr>\<rparr>
           in (case conn_commit c2 of
                 (Inl e, c3) \<Rightarrow> (Inl e, conn_rollback c3)
               | (Inr _, c3) \<Rightarrow> (Inr (), c3))))"

section \<open>Applying corrections (DivergenceProcessor)\<close>

text \<open>
  \<open>SELECT campo FROM byd.controladoria WHERE idnfsexterno = %s\<close> followed by
  \<open>fetchone()\<close> and \<open>valor_anterior[0] if valor_anterior else None\<close>.
\<close>

definition select_controladoria :: "database \<Rightarrow> string \<Rightarrow> string \<Rightarrow> val" where
  "select_controladoria db campo idnf =
     (case filter (\<lambda>r. fst r = idnf) (controladoria db) of
        [] \<Rightarrow> VNull
      | r # _ \<Rightarrow> (case map_of (snd r) campo of None \<Rightarrow> VNull | Some v \<Rightarrow> v))"

text \<open>\<open>UPDATE byd.controladoria SET campo = %s WHERE idnfsexterno = %s\<close> and its rowcount.\<close>

definition update_controladoria :: "database \<Rightarrow> string \<Rightarrow> val \<Rightarrow> string \<Rightarrow> database" where
  "update_controladoria db campo v idnf =
     db\<lparr>controladoria :=
          map (\<lambda>r. if fst r = idnf then (fst r, AList.update campo v (snd r)) else r)
            (controladoria db)\<rparr>"

definition rowcount_controladoria :: "database \<Rightarrow> string \<Rightarrow> nat" where
  "rowcount_controladoria db idnf = length (filter (\<lambda>r. fst r = idnf) (controladoria db))"

text \<open>
  The \<open>except Exception\<close> block of \<open>_aplicar_correcao_automatica\<close>: rollback, then, if
  \<open>op_id\<close> was assigned, finalize the operation as FAILED (a call that may raise in its
  turn), and return False.
\<close>

definition falha_correcao ::
  "nat option \<Rightarrow> error \<Rightarrow> connection \<Rightarrow> (error + bool) \<times> connection" where
  "falha_correcao op_id_local e c =
     (let c1 = conn_rollback c
      in (case op_id_local of
            None \<Rightarrow> (Inr False, c1)
          | Some operacao_id \<Rightarrow>
              (case finalizar_operacao c1 operacao_id ''FAILED'' 0 [] [] (Some (str_error e)) of
                 (Inl e', c2) \<Rightarrow> (Inl e', c2)
               | (Inr _, c2) \<Rightarrow> (Inr False, c2))))"

definition aplicar_correcao_automatica ::
  "connection \<Rightarrow> Divergencia \<Rightarrow> string \<Rightarrow> (error + bool) \<times> connection" where
  "aplicar_correcao_automatica c divergencia usuario =
     (case iniciar_operacao c ''UPDATE'' (''Correcao automatica: '' @ tipo divergencia)
             usuario ''AUTOMATION'' (Some ''byd.controladoria'') of
        (Inl e, c1) \<Rightarrow> falha_correcao None e c1
      | (Inr operacao_id, c1) \<Rightarrow>
     (case cursor_execute
             (SelectControladoria (campo_afetado divergencia) (idnfsexterno divergencia)) c1 of
        (Inl e, c2) \<Rightarrow> falha_correcao (Some operacao_id) e c2
      | (Inr _, c2) \<Rightarrow>
     (let valor_anterior = select_controladoria (working c2) (campo_afetado divergencia)
                             (idnfsexterno divergencia)
      in
     (case cursor_execute
             (UpdateControladoria (campo_afetado divergencia) (idnfsexterno divergencia)) c2 of
        (Inl e, c3) \<Rightarrow> falha_correcao (Some operacao_id) e c3
      | (Inr _, c3) \<Rightarrow>
     (let registros_afetados = rowcount_controladoria (working c3) (idnfsexterno divergencia);
          c4 = c3\<lparr>working := update_controladoria (working c3) (campo_afetado divergencia)
                                 (valor_esperado divergencia) (idnfsexterno divergencia)\<rparr>
      in
     (case registrar_divergencia c4 operacao_id (idnfsexterno divergencia) (tipo divergencia)
             (valor_atual divergencia) (valor_esperado divergencia)
             (campo_afetado divergencia) (competencia divergencia) (confianca divergencia)
             (regras_violadas divergencia) (dados_adicionais divergencia) of
        (Inl e, c5) \<Rightarrow> falha_correcao (Some operacao_id) e c5
      | (Inr div_id, c5) \<Rightarrow>
     (case atualizar_status_divergencia c5 div_id ''AUTO_APPLIED''
             (valor_esperado divergencia) (Some usuario) None of
        (Inl e, c6) \<Rightarrow> falha_correcao (Some operacao_id) e c6
      | (Inr _, c6) \<Rightarrow>
     (case finalizar_operacao c6 operacao_id ''SUCCESS'' registros_afetados
             [(idnfsexterno divergencia, campo_afetado divergencia, valor_anterior)]
             [(idnfsexterno divergencia, campo_afetado divergencia,
               valor_esperado divergencia)] None of
        (Inl e, c7) \<Rightarrow> falha_correcao (Some operacao_id) e c7
      | (Inr _, c7) \<Rightarrow>
     (case conn_commit c7 of
        (Inl e, c8) \<Rightarrow> falha_correcao (Some operacao_id) e c8
      | (Inr _, c8) \<Rightarrow> (Inr True, c8))))))))))"

text \<open>\<open>_registrar_divergencia_pendente\<close> has no handler of its own: an error propagates.\<close>

definition registrar_divergencia_pendente ::
  "connection \<Rightarrow> Divergencia \<Rightarrow> (error + nat) \<times> connection" where
  "registrar_divergencia_pendente c divergencia =
     (case iniciar_operacao c ''DETECT'' (''Divergencia detectada: '' @ tipo divergencia)
             ''sistema'' ''AUTOMATION'' None of
        (Inl e, c1) \<Rightarrow> (Inl e, c1)
      | (Inr operacao_id, c1) \<Rightarrow>
     (case registrar_divergencia c1 operacao_id (idnfsexterno divergencia) (tipo divergencia)
             (valor_atual divergencia) (valor_esperado divergencia)
             (campo_afetado divergencia) (competencia divergencia) (confianca divergencia)
             (regras_violadas divergencia) (dados_adicionais divergencia) of
        (Inl e, c2) \<Rightarrow> (Inl e, c2)
      | (Inr div_id, c2) \<Rightarrow>
     (case finalizar_operacao c2 operacao_id ''SUCCESS'' 0 [] [] None of
        (Inl e, c3) \<Rightarrow> (Inl e, c3)
      | (Inr _, c3) \<Rightarrow>
     (case conn_commit c3 of
        (Inl e, c4) \<Rightarrow> (Inl e, c4)
      | (Inr _, c4) \<Rightarrow> (Inr div_id, c4)))))"

text \<open>The summary dictionary and the entries of its list \<open>detalhes\<close>.\<close>

datatype info = ValorAplicado val | Motivo string | ConfiancaInfo real

record detalhe =
  det_idnfsexterno :: string
  det_tipo :: string
  det_status :: string
  det_info :: info

record resultado =
  total_divergencias :: nat
  corrigidas_automaticamente :: nat
  pendentes_aprovacao :: nat
  erros :: nat
  detalhes :: "detalhe list"

text \<open>The decision \<open>aplicar_auto\<close> taken for each divergence.\<close>

definition aplicar_auto :: "string \<Rightarrow> real \<Rightarrow> Divergencia \<Rightarrow> bool" where
  "aplicar_auto modo limite_auto_aplicacao d =
     (modo = ''auto'' \<and> confianca d \<ge> limite_auto_aplicacao
      \<and> tipo d \<in> set [''TRADE_MARKETING_BONUS'', ''TRADE_MARKETING_TRADE''])"

definition conta_erro :: "resultado \<Rightarrow> Divergencia \<Rightarrow> string \<Rightarrow> resultado" where
  "conta_erro res d motivo =
     res\<lparr>erros := erros res + 1,
         detalhes := detalhes res @
           [\<lparr>det_idnfsexterno = idnfsexterno d, det_tipo = tipo d, det_status = ''ERRO'',
             det_info = Motivo motivo\<rparr>]\<rparr>"

text \<open>The body of the loop of \<open>aplicar_correcoes\<close>, \<open>try\<close> and \<open>except\<close> together.\<close>

definition processar_divergencia ::
  "string \<Rightarrow> string \<Rightarrow> real \<Rightarrow> resultado \<times> connection \<Rightarrow> Divergencia
     \<Rightarrow> resultado \<times> connection" where
  "processar_divergencia modo usuario limite_auto_aplicacao rc d =
     (let res = fst rc; c = snd rc
      in if aplicar_auto modo limite_auto_aplicacao d
         then (case aplicar_correcao_automatica c d usuario of
                 (Inr True, c') \<Rightarrow>
                   (res\<lparr>corrigidas_automaticamente := corrigidas_automaticamente res + 1,
                        detalhes := detalhes res @
                          [\<lparr>det_idnfsexterno = idnfsexterno d, det_tipo = tipo d,
                            det_status = ''CORRIGIDO_AUTO'',
                            det_info = ValorAplicado (valor_esperado d)\<rparr>]\<rparr>, c')
               | (Inr False, c') \<Rightarrow> (conta_erro res d ''Falha na aplicacao automatica'', c')
               | (Inl e, c') \<Rightarrow> (conta_erro res d (str_error e), c'))
         else (case registrar_divergencia_pendente c d of
                 (Inr _, c') \<Rightarrow>
                   (res\<lparr>pendentes_aprovacao := pendentes_aprovacao res + 1,
                        detalhes := detalhes res @
                          [\<lparr>det_idnfsexterno = idnfsexterno d, det_tipo = tipo d,
                            det_status = ''PENDENTE_APROVACAO'',
                            det_info = ConfiancaInfo (confianca d)\<rparr>]\<rparr>, c')
               | (Inl e, c') \<Rightarrow> (conta_erro res d (str_error e), c')))"

fun aplicar_loop ::
  "string \<Rightarrow> string \<Rightarrow> real \<Rightarrow> resultado \<times> connection \<Rightarrow> Divergencia list
     \<Rightarrow> resultado \<times> connection" where
  "aplicar_loop modo usuario limite rc [] = rc"
| "aplicar_loop modo usuario limite rc (d # ds) =
     aplicar_loop modo usuario limite (processar_divergencia modo usuario limite rc d) ds"

definition aplicar_correcoes ::
  "connection \<Rightarrow> Divergencia list \<Rightarrow> string \<Rightarrow> string \<Rightarrow> real \<Rightarrow> resultado \<times> connection" where
  "aplicar_correcoes c divergencias modo usuario limite_auto_aplicacao =
     aplicar_loop modo usuario limite_auto_aplicacao
       (\<lparr>total_divergencias = length divergencias, corrigidas_automaticamente = 0,
         pendentes_aprovacao = 0, erros = 0, detalhes = []\<rparr>, c)
       divergencias"

text \<open>The default of the parameter \<open>limite_auto_aplicacao\<close>.\<close>

definition LIMITE_AUTO_APLICACAO_PADRAO :: real where
  "LIMITE_AUTO_APLICACAO_PADRAO = 0.95"

section \<open>The daily orchestrator (DailyProcessor.executar)\<close>

text \<open>
  Detection on the connection: the three scans are three SELECTs on the processor's
  cursor, each of which may raise; the handler of each scan logs and re-raises.
\<close>

definition detectar_divergencias_conn ::
  "connection \<Rightarrow> bonus_view_row list \<Rightarrow> date option \<Rightarrow> date option \<Rightarrow> real
     \<Rightarrow> (error + Divergencia list) \<times> connection" where
  "detectar_divergencias_conn c bonus_view data_inicio data_fim limite_confianca =
     (case cursor_execute SelectBonusView c of
        (Inl e, c1) \<Rightarrow> (Inl e, c1)
      | (Inr _, c1) \<Rightarrow>
     (case cursor_execute SelectBonusView c1 of
        (Inl e, c2) \<Rightarrow> (Inl e, c2)
      | (Inr _, c2) \<Rightarrow>
     (case cursor_execute SelectBonusView c2 of
        (Inl e, c3) \<Rightarrow> (Inl e, c3)
      | (Inr _, c3) \<Rightarrow>
          (Inr (detectar_divergencias bonus_view data_inicio data_fim limite_confianca), c3))))"

text \<open>Decimal rendering of a count inside an f-string.\<close>

fun str_nat :: "nat \<Rightarrow> string" where
  "str_nat n =
     (if n < 10 then [char_of (48 + n)] else str_nat (n div 10) @ [char_of (48 + n mod 10)])"

text \<open>
  The dictionary that \<open>executar\<close> returns (the keys \<open>periodo\<close> and \<open>duracao_segundos\<close>
  are left out).
\<close>

record resultado_execucao =
  re_status :: string
  re_sessao_id :: "nat option"
  re_metricas :: "(string \<times> nat) list"
  re_resultado_correcoes :: "resultado option"
  re_relatorio_gerado :: "string option"
  re_erros :: "string list"

text \<open>
  The outer \<open>except Exception\<close> of \<open>executar\<close>: the dictionary bound to \<open>resultado\<close> at
  that moment gets the status FAILED and one more error. The critical-failure alert is
  sent inside \<open>try: ... except: pass\<close> and has no effect on the result.
\<close>

definition falha_critica :: "resultado_execucao \<Rightarrow> string \<Rightarrow> resultado_execucao" where
  "falha_critica res m = res\<lparr>re_status := ''FAILED'', re_erros := re_erros res @ [m]\<rparr>"

definition resultado_inicial :: "string list \<Rightarrow> resultado_execucao" where
  "resultado_inicial es =
     \<lparr>re_status = ''ERROR'', re_sessao_id = None, re_metricas = [],
      re_resultado_correcoes = None, re_relatorio_gerado = None, re_erros = es\<rparr>"

text \<open>
  The stages after the corrections: report (stage 3), notification (stage 4) and the end
  of the session. \<open>relatorio\<close> is the outcome of \<open>gerar_relatorio_divergencias\<close> (a
  path, or the message of the exception) and \<open>notificacao\<close> that of
  \<open>enviar_alerta_divergencias\<close>; each is tried only when there are divergences, and an
  exception of either is caught and appended to the list \<open>erros\<close> of the result.
  \<open>status_final\<close> is computed from the error counter of the corrections alone. On
  \<open>return\<close> the context manager \<open>db_connection\<close> commits; on an exception it rolls
  back and re-raises to the outer handler of \<open>executar\<close>.
\<close>

definition concluir_execucao ::
  "connection \<Rightarrow> nat \<Rightarrow> Divergencia list \<Rightarrow> resultado \<Rightarrow> (string + string) \<Rightarrow> (string + bool)
     \<Rightarrow> resultado_execucao \<times> connection option" where
  "concluir_execucao c3 sessao_id divergencias resultado_correcoes relatorio notificacao =
     (let total_divergencias_det = length divergencias;
          relatorio_path =
            (if divergencias \<noteq> [] then (case relatorio of Inl m \<Rightarrow> None | Inr p \<Rightarrow> Some p)
             else None);
          erros_relatorio =
            (if divergencias \<noteq> []
             then (case relatorio of Inl m \<Rightarrow> [''Erro ao gerar relatorio: '' @ m] | Inr p \<Rightarrow> [])
             else []);
          erros_notificacao =
            (if total_divergencias_det > 0
             then (case notificacao of
                     Inl m \<Rightarrow> [''Erro ao enviar notificacao: '' @ m] | Inr b \<Rightarrow> [])
             else []);
          erros_etapas = erros_relatorio @ erros_notificacao;
          metricas =
            [(''total_registros_analisados'', total_divergencias_det),
             (''divergencias_detectadas'', total_divergencias_det),
             (''correcoes_aplicadas'', corrigidas_automaticamente resultado_correcoes),
             (''correcoes_pendentes'', pendentes_aprovacao resultado_correcoes),
             (''erros_encontrados'', erros resultado_correcoes)];
          status_final = (if erros resultado_correcoes = 0 then ''COMPLETED'' else ''PARTIAL'');
          resultado_final =
            \<lparr>re_status = status_final, re_sessao_id = Some sessao_id, re_metricas = metricas,
             re_resultado_correcoes = Some resultado_correcoes,
             re_relatorio_gerado = relatorio_path, re_erros = erros_etapas\<rparr>
      in
     (case finalizar_sessao_processamento c3 sessao_id status_final metricas
             (Some (''Processamento concluido com sucesso. ''
                    @ str_nat (corrigidas_automaticamente resultado_correcoes)
                    @ '' correcoes aplicadas, ''
                    @ str_nat (pendentes_aprovacao resultado_correcoes) @ '' pendentes.''))
             None of
        (Inl e, c4) \<Rightarrow>
          (falha_critica (resultado_inicial erros_etapas) (str_error e),
           Some (conn_rollback c4))
      | (Inr _, c4) \<Rightarrow>
     (case conn_commit c4 of
        (Inl e, c5) \<Rightarrow> (falha_critica resultado_final (str_error e), Some (conn_rollback c5))
      | (Inr _, c5) \<Rightarrow> (resultado_final, Some c5))))"

text \<open>
  \<open>executar\<close>: open the connection (\<open>conectar\<close> is the outcome of \<open>get_connection()\<close>),
  start the session, detect with the default threshold, apply with the default
  auto threshold as \<open>sistema_automatico\<close>, then the final stages. Any exception before
  them leaves the initial dictionary with status FAILED.
\<close>

definition executar ::
  "(string + connection) \<Rightarrow> bonus_view_row list \<Rightarrow> date option \<Rightarrow> date option \<Rightarrow> string
     \<Rightarrow> (string + string) \<Rightarrow> (string + bool)
     \<Rightarrow> resultado_execucao \<times> connection option" where
  "executar conectar bonus_view data_inicio data_fim modo relatorio notificacao =
     (case conectar of
        Inl m \<Rightarrow> (falha_critica (resultado_inicial []) m, None)
      | Inr c \<Rightarrow>
     (case iniciar_sessao_processamento c
             (if modo = ''auto'' then ''DAILY_AUTO'' else ''MANUAL_RUN'')
             [(''data_inicio'', case data_inicio of None \<Rightarrow> VNull | Some d \<Rightarrow> VDateStr d),
              (''data_fim'', case data_fim of None \<Rightarrow> VNull | Some d \<Rightarrow> VDateStr d),
              (''modo'', VStr modo)]
             ''PRODUCTION'' of
        (Inl e, c1) \<Rightarrow>
          (falha_critica (resultado_inicial []) (str_error e), Some (conn_rollback c1))
      | (Inr sessao_id, c1) \<Rightarrow>
     (case detectar_divergencias_conn c1 bonus_view data_inicio data_fim
             LIMITE_CONFIANCA_PADRAO of
        (Inl e, c2) \<Rightarrow>
          (falha_critica (resultado_inicial []) (str_error e), Some (conn_rollback c2))
      | (Inr divergencias, c2) \<Rightarrow>
     (let rc = aplicar_correcoes c2 divergencias modo ''sistema_automatico''
                 LIMITE_AUTO_APLICACAO_PADRAO
      in concluir_execucao (snd rc) sessao_id divergencias (fst rc)
           relatorio notificacao))))"

section \<open>Example inputs\<close>

text \<open>Rows of the view and a connection used to run the definitions on concrete data.\<close>

definition linha_bonus_dpto_negativo :: bonus_view_row where
  "linha_bonus_dpto_negativo =
     \<lparr>bv_idnfsexterno = ''NF-3'', bv_des_modelo = Some ''BYD Dolphin'', bv_apontamento = None,
      bv_competencia = Some ''2026-01'', bv_bonus_utilizado = Some ''Trade Marketing'',
      bv_valor_bonus = Some 0, bv_trade = Some 0, bv_bonus_dpto = Some (- 5),
      bv_trade_mkt_dpto = Some 0, bv_dta_processamento = Some 20260107,
      bv_dias_pendente = None\<rparr>"

definition linha_trade_marketing :: bonus_view_row where
  "linha_trade_marketing =
     \<lparr>bv_idnfsexterno = ''NF-1'', bv_des_modelo = Some ''BYD Dolphin'',
      bv_apontamento = Some REVISAR_DIVERGENCIA,
      bv_competencia = Some ''2026-01'', bv_bonus_utilizado = Some ''Trade Marketing'',
      bv_valor_bonus = Some 50, bv_trade = Some 0, bv_bonus_dpto = Some 0,
      bv_trade_mkt_dpto = Some 0, bv_dta_processamento = Some 20260105,
      bv_dias_pendente = None\<rparr>"

definition linha_pendente :: bonus_view_row where
  "linha_pendente =
     \<lparr>bv_idnfsexterno = ''NF-2'', bv_des_modelo = Some ''BYD Dolphin Mini'',
      bv_apontamento = None,
      bv_competencia = Some ''2026-01'', bv_bonus_utilizado = Some ''PENDENTE VERIFICACAO'',
      bv_valor_bonus = Some 0, bv_trade = Some 0, bv_bonus_dpto = Some 0,
      bv_trade_mkt_dpto = Some 0, bv_dta_processamento = Some 20260103,
      bv_dias_pendente = Some 12\<rparr>"

definition linha_trade_outlier :: bonus_view_row where
  "linha_trade_outlier =
     \<lparr>bv_idnfsexterno = ''NF-4'', bv_des_modelo = None, bv_apontamento = None,
      bv_competencia = Some ''2026-01'', bv_bonus_utilizado = None,
      bv_valor_bonus = Some (- 1), bv_trade = Some 250000, bv_bonus_dpto = None,
      bv_trade_mkt_dpto = None, bv_dta_processamento = Some 20260107,
      bv_dias_pendente = None\<rparr>"


definition db_inicial :: database where
  "db_inicial =
     \<lparr>controladoria = [(''NF-1'', [(''bonus_dpto'', VNum 0), (''trade_mkt_dpto'', VNum 0)])],
      operacoes = [], divergencias_processadas = [], sessoes_processamento = []\<rparr>"

definition conn_inicial :: "string option list \<Rightarrow> connection" where
  "conn_inicial fs =
     \<lparr>committed = db_inicial, working = db_inicial, faults = fs, seq_operacoes = 0,
      seq_divergencias = 0, seq_sessoes = 0, trace = []\<rparr>"

definition div_bonus :: Divergencia where
  "div_bonus =
     \<lparr>idnfsexterno = ''NF-1'', tipo = ''TRADE_MARKETING_BONUS'', campo_afetado = ''bonus_dpto'',
      valor_atual = VNum 0, valor_esperado = VNum 50, competencia = Some ''2026-01'',
      confianca = 0.95, regras_violadas = [''BONUS_DPTO_DIVERGENTE''],
      dados_adicionais = []\<rparr>"

text \<open>
  The connection after one automatic correction of \<open>div_bonus\<close> went through: the
  ledger holds one divergence record, in status AUTO_APPLIED.
\<close>

definition conn_auto_applied :: connection where
  "conn_auto_applied =
     snd (aplicar_correcoes (conn_inicial []) [div_bonus] ''auto'' ''sistema_automatico''
            LIMITE_AUTO_APLICACAO_PADRAO)"

text \<open>A pending-verification divergence, as rule 2 emits it.\<close>

definition div_pendente :: Divergencia where
  "div_pendente = pendente_row linha_pendente"

section \<open>Predicates used to state the properties\<close>



text \<open>The number of entries of \<open>detalhes\<close> with a given status.\<close>

definition conta :: "string \<Rightarrow> detalhe list \<Rightarrow> nat" where
  "conta st xs = length (filter (\<lambda>x. det_status x = st) xs)"

definition resumo_ok :: "resultado \<Rightarrow> bool" where
  "resumo_ok r =
     (corrigidas_automaticamente r = conta ''CORRIGIDO_AUTO'' (detalhes r)
      \<and> pendentes_aprovacao r = conta ''PENDENTE_APROVACAO'' (detalhes r)
      \<and> erros r = conta ''ERRO'' (detalhes r)
      \<and> corrigidas_automaticamente r + pendentes_aprovacao r + erros r = length (detalhes r))"



section \<open>Properties of detection\<close>

lemmas linhas_defs = linha_bonus_dpto_negativo_def linha_trade_marketing_def linha_pendente_def
  linha_trade_outlier_def

lemmas detect_defs = valores_where_def detectar_divergencias_valores_def valores_row_def
  regras_valores_def coalesce0_def to_float_def filtro_periodo_def sql_between_def
  detectar_divergencias_def detectar_divergencias_trade_marketing_def
  detectar_pendentes_verificacao_def pendentes_where_def pendente_row_def
  trade_marketing_where_def trade_marketing_row_def order_by_dta_desc_def
  LIMITE_CONFIANCA_PADRAO_def dados_trade_marketing_def

lemma trade_marketing_row_conf:
  "d \<in> set (trade_marketing_row r) \<Longrightarrow>
   confianca d = 0.95 \<and> (tipo d = ''TRADE_MARKETING_BONUS'' \<or> tipo d = ''TRADE_MARKETING_TRADE'')"
  by (auto simp: trade_marketing_row_def Let_def split: if_splits)

lemma trade_marketing_all:
  "d \<in> set (detectar_divergencias_trade_marketing bv di df) \<Longrightarrow>
   confianca d = 0.95 \<and> (tipo d = ''TRADE_MARKETING_BONUS'' \<or> tipo d = ''TRADE_MARKETING_TRADE'')"
  unfolding detectar_divergencias_trade_marketing_def
  using trade_marketing_row_conf by fastforce

lemma pendentes_all:
  "d \<in> set (detectar_pendentes_verificacao bv di df) \<Longrightarrow>
   confianca d = 0.5 \<and> tipo d = ''PENDENTE_VERIFICACAO''"
  by (auto simp: detectar_pendentes_verificacao_def pendente_row_def)

lemma valores_row_conf:
  "d \<in> set (valores_row r) \<Longrightarrow> confianca d = 0.7 \<and> tipo d = ''VALIDACAO_VALOR''"
  by (auto simp: valores_row_def split: if_splits)

lemma valores_all:
  "d \<in> set (detectar_divergencias_valores bv di df) \<Longrightarrow>
   confianca d = 0.7 \<and> tipo d = ''VALIDACAO_VALOR''"
  unfolding detectar_divergencias_valores_def
  using valores_row_conf by fastforce

lemma filter_const:
  assumes "\<And>x. x \<in> set xs \<Longrightarrow> P x = b"
  shows "filter P xs = (if b then xs else [])"
  using assms by (induction xs) auto

text \<open>What the confidence filter keeps of each scan, for any threshold.\<close>

lemma detectar_divergencias_por_limite:
  "detectar_divergencias bv di df limite =
     (if limite \<le> 0.95 then detectar_divergencias_trade_marketing bv di df else [])
   @ (if limite \<le> 0.5 then detectar_pendentes_verificacao bv di df else [])
   @ (if limite \<le> 0.7 then detectar_divergencias_valores bv di df else [])"
proof -
  have a: "filter (\<lambda>d. limite \<le> confianca d) (detectar_divergencias_trade_marketing bv di df)
      = (if limite \<le> 0.95 then detectar_divergencias_trade_marketing bv di df else [])"
    by (rule filter_const) (simp add: trade_marketing_all[THEN conjunct1])
  have b: "filter (\<lambda>d. limite \<le> confianca d) (detectar_pendentes_verificacao bv di df)
      = (if limite \<le> 0.5 then detectar_pendentes_verificacao bv di df else [])"
    by (rule filter_const) (simp add: pendentes_all[THEN conjunct1])
  have c: "filter (\<lambda>d. limite \<le> confianca d) (detectar_divergencias_valores bv di df)
      = (if limite \<le> 0.7 then detectar_divergencias_valores bv di df else [])"
    by (rule filter_const) (simp add: valores_all[THEN conjunct1])
  show ?thesis
    unfolding detectar_divergencias_def filter_append a b c ..
qed

text \<open>
  A row that the loop of rule 3 does recognise (a bound on \<open>trade\<close> or \<open>valor_bonus\<close>)
  gives one divergence with confidence 0.7 and a non-empty rule list.
\<close>

lemma valores_row_trade_ou_bonus:
  assumes "coalesce0 (bv_trade r) < 0 \<or> coalesce0 (bv_valor_bonus r) < 0
     \<or> coalesce0 (bv_trade r) > 100000 \<or> coalesce0 (bv_valor_bonus r) > 100000"
  shows "\<exists>d. valores_row r = [d] \<and> confianca d = 0.7 \<and> regras_violadas d \<noteq> []
     \<and> idnfsexterno d = bv_idnfsexterno r"
  using assms
  by (auto simp: valores_row_def regras_valores_def coalesce0_def to_float_def Let_def
      split: option.splits)

text \<open>
  C2. The query of the value-range rule selects a row whose only violation is a negative
  \<open>bonus_dpto\<close>, but the loop tests \<open>trade\<close> and \<open>valor_bonus\<close> only: for such a row
  \<open>regras_violadas\<close> stays empty and no divergence is emitted.
\<close>

theorem valores_bonus_dpto_negativo_sem_divergencia:
  "valores_where linha_bonus_dpto_negativo
   \<and> filtro_periodo None None linha_bonus_dpto_negativo
   \<and> detectar_divergencias_valores [linha_bonus_dpto_negativo] None None = []"
  by (simp add: linha_bonus_dpto_negativo_def detect_defs)

text \<open>
  C10. With the default threshold 0.8, \<open>detectar_divergencias\<close> returns exactly the
  trade-marketing divergences, all of confidence 0.95; a pending-verification divergence
  is returned if and only if the threshold is at most 0.5, and a value-range divergence
  if and only if the threshold is at most 0.7.
\<close>

theorem detectar_limite_padrao_so_trade_marketing:
  "detectar_divergencias bv di df LIMITE_CONFIANCA_PADRAO
     = detectar_divergencias_trade_marketing bv di df
   \<and> (\<forall>d \<in> set (detectar_divergencias bv di df LIMITE_CONFIANCA_PADRAO).
         confianca d = 0.95
         \<and> (tipo d = ''TRADE_MARKETING_BONUS'' \<or> tipo d = ''TRADE_MARKETING_TRADE''))
   \<and> (\<forall>d \<in> set (detectar_pendentes_verificacao bv di df).
         confianca d = 0.5
         \<and> d \<notin> set (detectar_divergencias bv di df LIMITE_CONFIANCA_PADRAO)
         \<and> (d \<in> set (detectar_divergencias bv di df limite) \<longleftrightarrow> limite \<le> 0.5))
   \<and> (\<forall>d \<in> set (detectar_divergencias_valores bv di df).
         confianca d = 0.7
         \<and> d \<notin> set (detectar_divergencias bv di df LIMITE_CONFIANCA_PADRAO)
         \<and> (d \<in> set (detectar_divergencias bv di df limite) \<longleftrightarrow> limite \<le> 0.7))"
proof -
  have eq: "detectar_divergencias bv di df LIMITE_CONFIANCA_PADRAO
      = detectar_divergencias_trade_marketing bv di df"
    by (simp add: detectar_divergencias_por_limite LIMITE_CONFIANCA_PADRAO_def)
  have tm: "\<forall>d \<in> set (detectar_divergencias bv di df LIMITE_CONFIANCA_PADRAO).
      confianca d = 0.95
      \<and> (tipo d = ''TRADE_MARKETING_BONUS'' \<or> tipo d = ''TRADE_MARKETING_TRADE'')"
    unfolding eq using trade_marketing_all by blast
  have pe: "confianca d = 0.5
      \<and> d \<notin> set (detectar_divergencias bv di df LIMITE_CONFIANCA_PADRAO)
      \<and> (d \<in> set (detectar_divergencias bv di df limite) \<longleftrightarrow> limite \<le> 0.5)"
    if "d \<in> set (detectar_pendentes_verificacao bv di df)" for d
  proof -
    from that have c: "confianca d = 0.5" using pendentes_all by blast
    show ?thesis using that c
      by (auto simp: detectar_divergencias_def LIMITE_CONFIANCA_PADRAO_def)
  qed
  have va: "confianca d = 0.7
      \<and> d \<notin> set (detectar_divergencias bv di df LIMITE_CONFIANCA_PADRAO)
      \<and> (d \<in> set (detectar_divergencias bv di df limite) \<longleftrightarrow> limite \<le> 0.7)"
    if "d \<in> set (detectar_divergencias_valores bv di df)" for d
  proof -
    from that have c: "confianca d = 0.7" using valores_all by blast
    show ?thesis using that c
      by (auto simp: detectar_divergencias_def LIMITE_CONFIANCA_PADRAO_def)
  qed
  show ?thesis using eq tm pe va by blast
qed

theorem detectar_limite_padrao_so_trade_marketing_witness:
  "detectar_divergencias [linha_trade_marketing, linha_pendente] None None
       LIMITE_CONFIANCA_PADRAO
     = detectar_divergencias_trade_marketing [linha_trade_marketing, linha_pendente] None None
   \<and> map tipo (detectar_divergencias_trade_marketing [linha_trade_marketing, linha_pendente]
         None None) = [''TRADE_MARKETING_BONUS'']
   \<and> map tipo (detectar_pendentes_verificacao [linha_trade_marketing, linha_pendente]
         None None) = [''PENDENTE_VERIFICACAO'']"
proof -
  have a: "map tipo (detectar_divergencias_trade_marketing
       [linha_trade_marketing, linha_pendente] None None) = [''TRADE_MARKETING_BONUS'']"
    by (simp add: linha_trade_marketing_def linha_pendente_def detect_defs
        REVISAR_DIVERGENCIA_def)
  have b: "map tipo (detectar_pendentes_verificacao
       [linha_trade_marketing, linha_pendente] None None) = [''PENDENTE_VERIFICACAO'']"
    by (simp add: linha_trade_marketing_def linha_pendente_def detect_defs)
  show ?thesis
    using a b
      detectar_limite_padrao_so_trade_marketing
        [of "[linha_trade_marketing, linha_pendente]" None None 0]
    by blast
qed

lemma aplicar_auto_tipo:
  "aplicar_auto modo limite d \<Longrightarrow>
     tipo d = ''TRADE_MARKETING_BONUS'' \<or> tipo d = ''TRADE_MARKETING_TRADE''"
  by (simp add: aplicar_auto_def)

text \<open>
  C8, as stated, fails: a row with the sentinel inside the window is selected by rule 2,
  and \<open>detectar_divergencias\<close> with its default threshold returns nothing for it.
\<close>

theorem pendente_filtrada_pelo_limite_padrao:
  "pendentes_where linha_pendente
   \<and> detectar_pendentes_verificacao [linha_pendente] None None \<noteq> []
   \<and> detectar_divergencias [linha_pendente] None None LIMITE_CONFIANCA_PADRAO = []"
  by (simp add: linha_pendente_def detect_defs)

text \<open>
  C8, amended. The scan of rule 2 emits one divergence for each selected row, in order,
  each of confidence 0.5 and never eligible for automatic application in mode auto,
  whatever the threshold; \<open>detectar_divergencias\<close> returns these divergences exactly when
  its threshold is at most 0.5.
\<close>

theorem pendentes_uma_por_linha_nunca_auto:
  "map idnfsexterno (detectar_pendentes_verificacao bv di df)
     = map bv_idnfsexterno (filter pendentes_where bv)
   \<and> (\<forall>d \<in> set (detectar_pendentes_verificacao bv di df).
         confianca d = 0.5 \<and> \<not> aplicar_auto ''auto'' limite_auto d)
   \<and> filter (\<lambda>d. tipo d = ''PENDENTE_VERIFICACAO'') (detectar_divergencias bv di df limite)
       = (if limite \<le> 0.5 then detectar_pendentes_verificacao bv di df else [])"
proof -
  have a: "map idnfsexterno (detectar_pendentes_verificacao bv di df)
     = map bv_idnfsexterno (filter pendentes_where bv)"
    by (simp add: detectar_pendentes_verificacao_def pendente_row_def)
  have b: "\<forall>d \<in> set (detectar_pendentes_verificacao bv di df).
         confianca d = 0.5 \<and> \<not> aplicar_auto ''auto'' limite_auto d"
    using pendentes_all aplicar_auto_tipo by fastforce
  have f1: "filter (\<lambda>d. tipo d = ''PENDENTE_VERIFICACAO'')
       (detectar_divergencias_trade_marketing bv di df) = []"
    using trade_marketing_all by (fastforce simp: filter_empty_conv)
  have f2: "filter (\<lambda>d. tipo d = ''PENDENTE_VERIFICACAO'')
       (detectar_divergencias_valores bv di df) = []"
    using valores_all by (fastforce simp: filter_empty_conv)
  have f3: "filter (\<lambda>d. tipo d = ''PENDENTE_VERIFICACAO'')
       (detectar_pendentes_verificacao bv di df) = detectar_pendentes_verificacao bv di df"
    using pendentes_all by (simp add: filter_id_conv)
  have c: "filter (\<lambda>d. tipo d = ''PENDENTE_VERIFICACAO'') (detectar_divergencias bv di df limite)
       = (if limite \<le> 0.5 then detectar_pendentes_verificacao bv di df else [])"
    by (simp add: detectar_divergencias_por_limite f1 f2 f3)
  show ?thesis using a b c by blast
qed

theorem pendentes_uma_por_linha_nunca_auto_witness:
  "map idnfsexterno (detectar_pendentes_verificacao [linha_trade_marketing, linha_pendente]
       None None) = [''NF-2'']
   \<and> map confianca (detectar_pendentes_verificacao [linha_trade_marketing, linha_pendente]
       None None) = [0.5]
   \<and> filter (\<lambda>d. tipo d = ''PENDENTE_VERIFICACAO'')
        (detectar_divergencias [linha_trade_marketing, linha_pendente] None None 0.5)
       = detectar_pendentes_verificacao [linha_trade_marketing, linha_pendente] None None"
proof -
  have a: "map bv_idnfsexterno (filter pendentes_where [linha_trade_marketing, linha_pendente])
      = [''NF-2'']"
    by (simp add: linha_trade_marketing_def linha_pendente_def detect_defs)
  have b: "map confianca (detectar_pendentes_verificacao
       [linha_trade_marketing, linha_pendente] None None) = [0.5]"
    by (simp add: linha_trade_marketing_def linha_pendente_def detect_defs)
  show ?thesis
    using a b
      pendentes_uma_por_linha_nunca_auto
        [of "[linha_trade_marketing, linha_pendente]" None None 0 "0.5"]
    by simp
qed

section \<open>Properties of the ledger\<close>

lemmas conn_defs = round_trip_def cursor_execute_def conn_rollback_def conn_commit_def

lemmas ledger_defs = iniciar_operacao_def finalizar_operacao_def registrar_divergencia_def
  atualizar_status_divergencia_def iniciar_sessao_processamento_def
  finalizar_sessao_processamento_def json_or_null_def metrica_get_def

lemmas apply_defs = select_controladoria_def update_controladoria_def
  rowcount_controladoria_def falha_correcao_def aplicar_correcao_automatica_def
  registrar_divergencia_pendente_def aplicar_auto_def conta_erro_def
  processar_divergencia_def aplicar_correcoes_def LIMITE_AUTO_APLICACAO_PADRAO_def

lemmas exemplo_defs = db_inicial_def conn_inicial_def div_bonus_def

text \<open>
  When no fault is pending, \<open>atualizar_status_divergencia\<close> gives the row the new
  status, whatever status it had.
\<close>

lemma atualizar_status_sobrescreve:
  assumes "faults c = []" and "r \<in> set (divergencias_processadas (working c))"
    and "dp_id r = i"
  shows "fst (atualizar_status_divergencia c i novo_status v p mr) = Inr ()
    \<and> r\<lparr>dp_status_processamento := novo_status, dp_valor_aplicado := v,
          dp_processado_por := p, dp_motivo_rejeicao := mr\<rparr>
        \<in> set (divergencias_processadas
                 (committed (snd (atualizar_status_divergencia c i novo_status v p mr))))"
  using assms
  by (auto simp: atualizar_status_divergencia_def conn_defs Let_def image_iff
      intro!: bexI[of _ r])

text \<open>
  C3. A divergence record that reached AUTO_APPLIED is moved to REJECTED, and even back
  to DETECTED, by a further call of \<open>atualizar_status_divergencia\<close>: the call succeeds
  and commits, it is neither a no-op nor a conflict.
\<close>

theorem status_terminal_sobrescrito:
  "map dp_status_processamento (divergencias_processadas (committed conn_auto_applied))
     = [''AUTO_APPLIED'']
   \<and> fst (atualizar_status_divergencia conn_auto_applied 1 ''REJECTED'' VNull
            (Some ''ana'') (Some ''duplicada'')) = Inr ()
   \<and> map dp_status_processamento (divergencias_processadas (committed (snd
          (atualizar_status_divergencia conn_auto_applied 1 ''REJECTED'' VNull
            (Some ''ana'') (Some ''duplicada''))))) = [''REJECTED'']
   \<and> map dp_status_processamento (divergencias_processadas (committed (snd
          (atualizar_status_divergencia conn_auto_applied 1 ''DETECTED'' VNull
            None None)))) = [''DETECTED'']"
  by (simp add: conn_auto_applied_def exemplo_defs apply_defs ledger_defs conn_defs Let_def)

















section \<open>Properties of the correction batch\<close>

text \<open>One pass of the loop body: one counter goes up by one, one entry is appended.\<close>

lemma processar_divergencia_passo:
  fixes res c d modo u limite
  defines "res' \<equiv> fst (processar_divergencia modo u limite (res, c) d)"
  shows "total_divergencias res' = total_divergencias res
   \<and> (\<exists>x. detalhes res' = detalhes res @ [x]
        \<and> det_idnfsexterno x = idnfsexterno d \<and> det_tipo x = tipo d
        \<and> ((det_status x = ''CORRIGIDO_AUTO'' \<and> aplicar_auto modo limite d
              \<and> corrigidas_automaticamente res' = corrigidas_automaticamente res + 1
              \<and> pendentes_aprovacao res' = pendentes_aprovacao res
              \<and> erros res' = erros res)
           \<or> (det_status x = ''PENDENTE_APROVACAO'' \<and> \<not> aplicar_auto modo limite d
              \<and> corrigidas_automaticamente res' = corrigidas_automaticamente res
              \<and> pendentes_aprovacao res' = pendentes_aprovacao res + 1
              \<and> erros res' = erros res)
           \<or> (det_status x = ''ERRO''
              \<and> corrigidas_automaticamente res' = corrigidas_automaticamente res
              \<and> pendentes_aprovacao res' = pendentes_aprovacao res
              \<and> erros res' = erros res + 1)))"
  unfolding res'_def
  by (auto simp: processar_divergencia_def conta_erro_def Let_def
      split: prod.splits sum.splits bool.splits)

lemma resumo_ok_passo:
  assumes "resumo_ok res"
  shows "resumo_ok (fst (processar_divergencia modo u limite (res, c) d))"
  using assms processar_divergencia_passo[of modo u limite res c d]
  by (auto simp: resumo_ok_def conta_def)

lemma aplicar_loop_inv:
  assumes "resumo_ok (fst rc)"
  shows "resumo_ok (fst (aplicar_loop modo u limite rc ds))
    \<and> total_divergencias (fst (aplicar_loop modo u limite rc ds)) = total_divergencias (fst rc)
    \<and> map det_idnfsexterno (detalhes (fst (aplicar_loop modo u limite rc ds)))
        = map det_idnfsexterno (detalhes (fst rc)) @ map idnfsexterno ds"
  using assms
proof (induction ds arbitrary: rc)
  case Nil
  then show ?case by simp
next
  case (Cons d ds)
  obtain res c where rc: "rc = (res, c)" by (cases rc)
  let ?rc' = "processar_divergencia modo u limite rc d"
  have ok: "resumo_ok (fst ?rc')"
    using Cons.prems resumo_ok_passo rc by simp
  have st: "total_divergencias (fst ?rc') = total_divergencias (fst rc)
     \<and> map det_idnfsexterno (detalhes (fst ?rc'))
          = map det_idnfsexterno (detalhes (fst rc)) @ [idnfsexterno d]"
    using processar_divergencia_passo[of modo u limite res c d] rc by auto
  show ?case
    using Cons.IH[OF ok] st by simp
qed

text \<open>
  C5. For every list of divergences, every mode and every schedule of faults, the summary
  has \<open>total_divergencias = len(divergencias)\<close>, the three counters add up to it, and
  each divergence has exactly one entry in \<open>detalhes\<close>, in order, whose status names
  the counter it went to.
\<close>

theorem aplicar_correcoes_contagens:
  "total_divergencias (fst (aplicar_correcoes c ds modo u limite)) = length ds
   \<and> corrigidas_automaticamente (fst (aplicar_correcoes c ds modo u limite))
     + pendentes_aprovacao (fst (aplicar_correcoes c ds modo u limite))
     + erros (fst (aplicar_correcoes c ds modo u limite))
     = total_divergencias (fst (aplicar_correcoes c ds modo u limite))
   \<and> map det_idnfsexterno (detalhes (fst (aplicar_correcoes c ds modo u limite)))
     = map idnfsexterno ds
   \<and> corrigidas_automaticamente (fst (aplicar_correcoes c ds modo u limite))
     = length (filter (\<lambda>x. det_status x = ''CORRIGIDO_AUTO'')
         (detalhes (fst (aplicar_correcoes c ds modo u limite))))
   \<and> pendentes_aprovacao (fst (aplicar_correcoes c ds modo u limite))
     = length (filter (\<lambda>x. det_status x = ''PENDENTE_APROVACAO'')
         (detalhes (fst (aplicar_correcoes c ds modo u limite))))
   \<and> erros (fst (aplicar_correcoes c ds modo u limite))
     = length (filter (\<lambda>x. det_status x = ''ERRO'')
         (detalhes (fst (aplicar_correcoes c ds modo u limite))))"
proof -
  let ?r0 = "\<lparr>total_divergencias = length ds, corrigidas_automaticamente = 0,
         pendentes_aprovacao = 0, erros = 0, detalhes = []\<rparr>"
  have ok0: "resumo_ok (fst (?r0, c))" by (simp add: resumo_ok_def conta_def)
  note inv = aplicar_loop_inv[OF ok0, of modo u limite ds, folded aplicar_correcoes_def]
  have len: "length (detalhes (fst (aplicar_correcoes c ds modo u limite))) = length ds"
  proof -
    have "map det_idnfsexterno (detalhes (fst (aplicar_correcoes c ds modo u limite)))
        = map idnfsexterno ds"
      using inv by simp
    from arg_cong[OF this, of length] show ?thesis by simp
  qed
  show ?thesis
    using inv len by (simp add: resumo_ok_def conta_def)
qed

theorem aplicar_correcoes_contagens_witness:
  "total_divergencias (fst (aplicar_correcoes (conn_inicial [None, None, Some ''timeout''])
       [div_bonus, div_pendente] ''auto'' ''sistema_automatico'' LIMITE_AUTO_APLICACAO_PADRAO))
     = 2
   \<and> map det_idnfsexterno (detalhes (fst (aplicar_correcoes
         (conn_inicial [None, None, Some ''timeout''])
         [div_bonus, div_pendente] ''auto'' ''sistema_automatico''
         LIMITE_AUTO_APLICACAO_PADRAO))) = [''NF-1'', ''NF-2'']"
  using aplicar_correcoes_contagens
    [of "conn_inicial [None, None, Some ''timeout'']" "[div_bonus, div_pendente]" "''auto''"
        "''sistema_automatico''" LIMITE_AUTO_APLICACAO_PADRAO]
  by (simp add: div_bonus_def div_pendente_def pendente_row_def linha_pendente_def)










end
